theory Spec2Isabelle
  imports Complex_Main
begin

section \<open>Maze-chase simulation core: grid maze, moving entities, ghosts, game state\<close>

text \<open>
  The development follows the C++ sources \<^verbatim>\<open>maze.h/.cpp\<close>, \<^verbatim>\<open>entities.h/.cpp\<close>,
  \<^verbatim>\<open>game.h/.cpp\<close> and \<^verbatim>\<open>direction.h\<close>.

  Conventions of the embedding.
  \<^item> A C++ \<^verbatim>\<open>double\<close> is modelled as a \<^typ>\<open>real\<close>: arithmetic is exact, rounding is
    not modelled. \<^verbatim>\<open>sqrt\<close>, \<^verbatim>\<open>fabs\<close> and \<^verbatim>\<open>fmod\<close> are the real functions.
  \<^item> A C++ \<^verbatim>\<open>int\<close> is modelled as an \<^typ>\<open>int\<close>. The cell indices stay within a few
    units of the 25 x 13 grid and the counters within the number of cells; signed
    overflow, which C++ leaves undefined, is not modelled.
  \<^item> \<^verbatim>\<open>static_cast<int>(d)\<close> truncates towards zero (\<open>to_int\<close>).
  \<^item> Reading a \<^verbatim>\<open>std::vector\<close> outside its range is undefined in C++; the model makes
    it the value \<open>None\<close>, so every function that reads the maze layout returns an option.
  \<^item> Member functions take the object as an argument and return the updated object.
\<close>

subsection \<open>Directions and configuration constants\<close>

datatype direction_t = DIR_NONE | DIR_LEFT | DIR_RIGHT | DIR_UP | DIR_DOWN

definition MAZE_ROWS :: int where "MAZE_ROWS = 13"
definition MAZE_COLS :: int where "MAZE_COLS = 25"
definition CELL_SIZE :: int where "CELL_SIZE = 40"
definition SPEED :: real where "SPEED = 120"
definition PACMAN_RADIUS_OFFSET :: int where "PACMAN_RADIUS_OFFSET = 2"
definition ALIGNMENT_TOLERANCE :: real where "ALIGNMENT_TOLERANCE = 4"
definition TOKEN_POINTS :: int where "TOKEN_POINTS = 10"
definition COLLECTION_DISTANCE :: real where "COLLECTION_DISTANCE = 15"
definition POWER_PELLET_POINTS :: int where "POWER_PELLET_POINTS = 50"
definition COLLISION_DISTANCE :: real where "COLLISION_DISTANCE = 20"

text \<open>\<^verbatim>\<open>static_cast<int>\<close> on a double: truncation towards zero.\<close>

definition to_int :: "real \<Rightarrow> int" where
  "to_int d = (if 0 \<le> d then \<lfloor>d\<rfloor> else \<lceil>d\<rceil>)"

subsection \<open>Maze\<close>

text \<open>
  \<^verbatim>\<open>class Maze\<close>: the layout is a vector of rows of ints (1 wall, 0 open) and the level
  number. The constructor leaves a 13 x 25 layout in every case: \<^verbatim>\<open>load_from_csv\<close>
  accepts a file only after checking both dimensions, and otherwise the built-in
  layout is used. \<open>maze_wf\<close> states that class invariant.
\<close>

record Maze =
  maze_layout :: "int list list"
  level :: int

definition vec_at :: "'a list \<Rightarrow> int \<Rightarrow> 'a option" where
  "vec_at xs i = (if 0 \<le> i \<and> i < int (length xs) then Some (xs ! nat i) else None)"

definition maze_wf :: "Maze \<Rightarrow> bool" where
  "maze_wf m \<longleftrightarrow>
     int (length (maze_layout m)) = MAZE_ROWS \<and>
     list_all (\<lambda>r. int (length r) = MAZE_COLS) (maze_layout m)"

definition is_valid_position :: "int \<Rightarrow> int \<Rightarrow> bool" where
  "is_valid_position row col \<longleftrightarrow> row \<ge> 0 \<and> row < MAZE_ROWS \<and> col \<ge> 0 \<and> col < MAZE_COLS"

text \<open>
  \<^verbatim>\<open>is_valid_position(row, col) && maze_layout_[row][col] == 0\<close>: the layout is read only
  when the position is valid (short-circuit).
\<close>

definition is_empty :: "Maze \<Rightarrow> int \<Rightarrow> int \<Rightarrow> bool option" where
  "is_empty m row col =
     (if is_valid_position row col then
        (case vec_at (maze_layout m) row of
           None \<Rightarrow> None
         | Some r \<Rightarrow> (case vec_at r col of None \<Rightarrow> None | Some c \<Rightarrow> Some (c = 0)))
      else Some False)"

definition is_empty_or_tunnel :: "Maze \<Rightarrow> int \<Rightarrow> int \<Rightarrow> bool option" where
  "is_empty_or_tunnel m row col =
     (if row = 6 \<and> (col < 0 \<or> col \<ge> MAZE_COLS) then Some True
      else is_empty m row col)"

text \<open>Short-circuit conjunction of two queries that may fail.\<close>

definition and_also :: "bool option \<Rightarrow> bool option \<Rightarrow> bool option" where
  "and_also a b = (case a of None \<Rightarrow> None | Some False \<Rightarrow> Some False | Some True \<Rightarrow> b)"

definition can_move_to :: "Maze \<Rightarrow> real \<Rightarrow> real \<Rightarrow> bool option" where
  "can_move_to m x y =
     (let radius = real_of_int CELL_SIZE / 2 - real_of_int PACMAN_RADIUS_OFFSET;
          left_col = to_int ((x - radius) / real_of_int CELL_SIZE);
          right_col = to_int ((x + radius) / real_of_int CELL_SIZE);
          top_row = to_int ((y - radius) / real_of_int CELL_SIZE);
          bottom_row = to_int ((y + radius) / real_of_int CELL_SIZE)
      in and_also (is_empty_or_tunnel m top_row left_col)
           (and_also (is_empty_or_tunnel m top_row right_col)
              (and_also (is_empty_or_tunnel m bottom_row left_col)
                 (is_empty_or_tunnel m bottom_row right_col))))"

definition get_cell_center_x :: "int \<Rightarrow> real" where
  "get_cell_center_x col = real_of_int (col * CELL_SIZE) + real_of_int CELL_SIZE / 2"

definition get_cell_center_y :: "int \<Rightarrow> real" where
  "get_cell_center_y row = real_of_int (row * CELL_SIZE) + real_of_int CELL_SIZE / 2"

text \<open>
  The built-in layout of the \<^verbatim>\<open>Maze\<close> constructor (used when no level file loads).
  Rows 0 and 12 are 25 walls and row 6, the tunnel row, is 25 open cells.
\<close>

definition fallback_layout :: "int list list" where
  "fallback_layout =
    [replicate 25 1,
     [1, 0, 0, 0, 0, 0, 0, 0, 0, 0, 0, 0, 1, 0, 0, 0, 0, 0, 0, 0, 0, 0, 0, 0, 1],
     [1, 0, 1, 1, 0, 1, 1, 1, 0, 1, 1, 0, 1, 0, 1, 1, 0, 1, 1, 1, 0, 1, 1, 0, 1],
     [1, 0, 1, 0, 0, 0, 0, 0, 0, 0, 1, 0, 1, 0, 1, 0, 0, 0, 0, 0, 0, 0, 1, 0, 1],
     [1, 0, 0, 0, 1, 0, 1, 0, 1, 0, 0, 0, 1, 0, 0, 0, 1, 0, 1, 0, 1, 0, 0, 0, 1],
     [1, 0, 1, 1, 1, 0, 1, 0, 1, 1, 1, 0, 0, 0, 1, 1, 1, 0, 1, 0, 1, 1, 1, 0, 1],
     replicate 25 0,
     [1, 0, 1, 1, 1, 0, 1, 0, 1, 1, 1, 0, 0, 0, 1, 1, 1, 0, 1, 0, 1, 1, 1, 0, 1],
     [1, 0, 0, 0, 1, 0, 1, 0, 1, 0, 0, 0, 1, 0, 0, 0, 1, 0, 1, 0, 1, 0, 0, 0, 1],
     [1, 0, 1, 0, 0, 0, 0, 0, 0, 0, 1, 0, 1, 0, 1, 0, 0, 0, 0, 0, 0, 0, 1, 0, 1],
     [1, 0, 1, 1, 0, 1, 1, 1, 0, 1, 1, 0, 1, 0, 1, 1, 0, 1, 1, 1, 0, 1, 1, 0, 1],
     [1, 0, 0, 0, 0, 0, 0, 0, 0, 0, 0, 0, 1, 0, 0, 0, 0, 0, 0, 0, 0, 0, 0, 0, 1],
     replicate 25 1]"

definition fallback_maze :: Maze where
  "fallback_maze = \<lparr> maze_layout = fallback_layout, level = 1 \<rparr>"

subsection \<open>Moving entity\<close>

text \<open>
  \<^verbatim>\<open>class Entity\<close>. The fields \<^verbatim>\<open>x_\<close>, \<^verbatim>\<open>y_\<close>, \<^verbatim>\<open>dir_\<close>, \<^verbatim>\<open>desired_dir_\<close>, \<^verbatim>\<open>palette_\<close> and
  \<^verbatim>\<open>speed_multiplier_\<close> are \<open>pos_x\<close>, \<open>pos_y\<close>, \<open>dir\<close>, \<open>desired_dir\<close>, \<open>palette\<close> and
  \<open>speed_multiplier\<close>. The subclasses extend the record. The virtual function
  \<^verbatim>\<open>get_current_speed\<close> is the parameter \<open>spd\<close> of the functions that call it.
\<close>

record Entity =
  pos_x :: real
  pos_y :: real
  dir :: direction_t
  desired_dir :: direction_t
  palette :: string
  speed_multiplier :: real



definition entity_get_current_speed :: "'a Entity_scheme \<Rightarrow> real" where
  "entity_get_current_speed e = SPEED * speed_multiplier e"

fun get_next_cell :: "direction_t \<Rightarrow> int \<Rightarrow> int \<Rightarrow> int \<times> int" where
  "get_next_cell DIR_LEFT row col = (row, col - 1)"
| "get_next_cell DIR_RIGHT row col = (row, col + 1)"
| "get_next_cell DIR_UP row col = (row - 1, col)"
| "get_next_cell DIR_DOWN row col = (row + 1, col)"
| "get_next_cell DIR_NONE row col = (row, col)"

fun is_aligned_for_direction :: "'a Entity_scheme \<Rightarrow> direction_t \<Rightarrow> real \<Rightarrow> real \<Rightarrow> bool" where
  "is_aligned_for_direction e DIR_LEFT center_x center_y = (\<bar>pos_y e - center_y\<bar> < ALIGNMENT_TOLERANCE)"
| "is_aligned_for_direction e DIR_RIGHT center_x center_y = (\<bar>pos_y e - center_y\<bar> < ALIGNMENT_TOLERANCE)"
| "is_aligned_for_direction e DIR_UP center_x center_y = (\<bar>pos_x e - center_x\<bar> < ALIGNMENT_TOLERANCE)"
| "is_aligned_for_direction e DIR_DOWN center_x center_y = (\<bar>pos_x e - center_x\<bar> < ALIGNMENT_TOLERANCE)"
| "is_aligned_for_direction e DIR_NONE center_x center_y = False"

fun align_to_grid :: "'a Entity_scheme \<Rightarrow> direction_t \<Rightarrow> real \<Rightarrow> real \<Rightarrow> 'a Entity_scheme" where
  "align_to_grid e DIR_LEFT center_x center_y = e\<lparr>pos_y := center_y\<rparr>"
| "align_to_grid e DIR_RIGHT center_x center_y = e\<lparr>pos_y := center_y\<rparr>"
| "align_to_grid e DIR_UP center_x center_y = e\<lparr>pos_x := center_x\<rparr>"
| "align_to_grid e DIR_DOWN center_x center_y = e\<lparr>pos_x := center_x\<rparr>"
| "align_to_grid e DIR_NONE center_x center_y = e"

fun get_next_position ::
  "('a Entity_scheme \<Rightarrow> real) \<Rightarrow> 'a Entity_scheme \<Rightarrow> direction_t \<Rightarrow> real \<Rightarrow> real \<times> real" where
  "get_next_position spd e DIR_LEFT delta_time = (pos_x e - spd e * delta_time, pos_y e)"
| "get_next_position spd e DIR_RIGHT delta_time = (pos_x e + spd e * delta_time, pos_y e)"
| "get_next_position spd e DIR_UP delta_time = (pos_x e, pos_y e - spd e * delta_time)"
| "get_next_position spd e DIR_DOWN delta_time = (pos_x e, pos_y e + spd e * delta_time)"
| "get_next_position spd e DIR_NONE delta_time = (pos_x e, pos_y e)"

definition snap_to_grid_if_close :: "real \<Rightarrow> real \<Rightarrow> 'a Entity_scheme \<Rightarrow> 'a Entity_scheme" where
  "snap_to_grid_if_close center_x center_y e =
     (let e1 = (if (dir e = DIR_LEFT \<or> dir e = DIR_RIGHT) \<and>
                   \<bar>pos_y e - center_y\<bar> < ALIGNMENT_TOLERANCE
                then e\<lparr>pos_y := center_y\<rparr> else e)
      in if (dir e1 = DIR_UP \<or> dir e1 = DIR_DOWN) \<and>
            \<bar>pos_x e1 - center_x\<bar> < ALIGNMENT_TOLERANCE
         then e1\<lparr>pos_x := center_x\<rparr> else e1)"

text \<open>
  \<^verbatim>\<open>aligned && maze.is_empty(next_row, next_col)\<close>: the maze is queried only when the
  entity is aligned.
\<close>

definition attempt_direction_change ::
  "Maze \<Rightarrow> int \<Rightarrow> int \<Rightarrow> real \<Rightarrow> real \<Rightarrow> 'a Entity_scheme \<Rightarrow> 'a Entity_scheme option" where
  "attempt_direction_change m row col center_x center_y e =
     (let (next_row, next_col) = get_next_cell (desired_dir e) row col;
          aligned = is_aligned_for_direction e (desired_dir e) center_x center_y
      in if aligned then
           (case is_empty m next_row next_col of
              None \<Rightarrow> None
            | Some True \<Rightarrow>
                Some ((align_to_grid e (desired_dir e) center_x center_y)\<lparr>dir := desired_dir e\<rparr>)
            | Some False \<Rightarrow> Some e)
         else Some e)"

definition attempt_movement ::
  "('a Entity_scheme \<Rightarrow> real) \<Rightarrow> Maze \<Rightarrow> real \<Rightarrow> real \<Rightarrow> real \<Rightarrow> 'a Entity_scheme
     \<Rightarrow> 'a Entity_scheme option" where
  "attempt_movement spd m center_x center_y delta_time e =
     (if dir e = DIR_NONE then Some e
      else
        (let (test_x, test_y) = get_next_position spd e (dir e) delta_time
         in case can_move_to m test_x test_y of
              None \<Rightarrow> None
            | Some True \<Rightarrow>
                Some (snap_to_grid_if_close center_x center_y (e\<lparr>pos_x := test_x, pos_y := test_y\<rparr>))
            | Some False \<Rightarrow> Some (e\<lparr>dir := DIR_NONE\<rparr>)))"

definition move_in_direction ::
  "('a Entity_scheme \<Rightarrow> real) \<Rightarrow> Maze \<Rightarrow> real \<Rightarrow> 'a Entity_scheme \<Rightarrow> 'a Entity_scheme option" where
  "move_in_direction spd m delta_time e =
     (let col = to_int (pos_x e / real_of_int CELL_SIZE);
          row = to_int (pos_y e / real_of_int CELL_SIZE);
          center_x = get_cell_center_x col;
          center_y = get_cell_center_y row
      in case (if desired_dir e \<noteq> DIR_NONE \<and> desired_dir e \<noteq> dir e
               then attempt_direction_change m row col center_x center_y e
               else Some e) of
           None \<Rightarrow> None
         | Some e1 \<Rightarrow> attempt_movement spd m center_x center_y delta_time e1)"

text \<open>\<^verbatim>\<open>Entity::update\<close>.\<close>

definition entity_update ::
  "('a Entity_scheme \<Rightarrow> real) \<Rightarrow> Maze \<Rightarrow> real \<Rightarrow> 'a Entity_scheme \<Rightarrow> 'a Entity_scheme option" where
  "entity_update spd m delta_time e = move_in_direction spd m delta_time e"

text \<open>
  The main loop calls \<^verbatim>\<open>update\<close> once per frame; \<open>repeat_update\<close> runs one update per
  frame time of the list, the desired direction being left as it is in between.
\<close>

fun repeat_update ::
  "('a Entity_scheme \<Rightarrow> real) \<Rightarrow> Maze \<Rightarrow> real list \<Rightarrow> 'a Entity_scheme \<Rightarrow> 'a Entity_scheme option" where
  "repeat_update spd m [] e = Some e"
| "repeat_update spd m (dt # dts) e =
     (case entity_update spd m dt e of
        None \<Rightarrow> None
      | Some e' \<Rightarrow> repeat_update spd m dts e')"

subsection \<open>Ghost\<close>

datatype GhostState = CHASING | SCARED | CAUGHT | COOLDOWN

datatype GhostAIType = RANDOM_PATROL | AMBUSHER

datatype GhostAnimationState = FRAME_1 | FRAME_2

text \<open>
  \<^verbatim>\<open>class Ghost : public Entity\<close>, without the sprite sheet pointer. The constructor does
  not initialise \<^verbatim>\<open>scared_duration_actual_\<close>; it is written by \<open>set_scared_mode\<close>, the
  only place that enters the state \<open>SCARED\<close>.
\<close>

record Ghost = Entity +
  anim_state :: GhostAnimationState
  anim_timer :: real
  target_x :: real
  target_y :: real
  escape_target_x :: real
  escape_target_y :: real
  current_state :: GhostState
  scared_timer :: real
  scared_duration_actual :: real
  home_x :: real
  home_y :: real
  flash_timer :: real
  cooldown_timer :: real
  ai_type :: GhostAIType
  random_target_dir :: direction_t
  random_dir_timer :: real
  show_score_popup :: bool
  popup_timer :: real
  popup_x :: real
  popup_y :: real

definition SCARED_DURATION :: real where "SCARED_DURATION = 15"
definition WARNING_TIME :: real where "WARNING_TIME = 3"
definition COOLDOWN_DURATION :: real where "COOLDOWN_DURATION = 3"
definition POPUP_DURATION :: real where "POPUP_DURATION = 1"

definition set_scared_mode :: "Ghost \<Rightarrow> Ghost" where
  "set_scared_mode g =
     g\<lparr>current_state := SCARED, scared_timer := 0, flash_timer := 0,
       scared_duration_actual := SCARED_DURATION / speed_multiplier g\<rparr>"

definition set_caught_mode :: "Ghost \<Rightarrow> Ghost" where
  "set_caught_mode g = g\<lparr>current_state := CAUGHT\<rparr>"

definition set_chasing_mode :: "Ghost \<Rightarrow> Ghost" where
  "set_chasing_mode g =
     g\<lparr>current_state := CHASING, scared_timer := 0, flash_timer := 0, cooldown_timer := 0\<rparr>"

definition is_scared :: "Ghost \<Rightarrow> bool" where
  "is_scared g \<longleftrightarrow> current_state g = SCARED"

definition is_caught :: "Ghost \<Rightarrow> bool" where
  "is_caught g \<longleftrightarrow> current_state g = CAUGHT"

definition can_interact :: "Ghost \<Rightarrow> bool" where
  "can_interact g \<longleftrightarrow> current_state g \<noteq> COOLDOWN"

definition trigger_score_popup :: "real \<Rightarrow> real \<Rightarrow> Ghost \<Rightarrow> Ghost" where
  "trigger_score_popup x y g =
     g\<lparr>show_score_popup := True, popup_timer := 0, popup_x := x, popup_y := y\<rparr>"

definition update_score_popup :: "real \<Rightarrow> Ghost \<Rightarrow> Ghost" where
  "update_score_popup delta_time g =
     (if show_score_popup g then
        (let g1 = g\<lparr>popup_timer := popup_timer g + delta_time\<rparr>
         in if popup_timer g1 \<ge> POPUP_DURATION
            then g1\<lparr>show_score_popup := False, popup_timer := 0\<rparr> else g1)
      else g)"

text \<open>\<^verbatim>\<open>Ghost::get_current_speed\<close>, the override of the virtual function.\<close>

definition ghost_get_current_speed :: "Ghost \<Rightarrow> real" where
  "ghost_get_current_speed g =
     (if current_state g = CAUGHT then SPEED * speed_multiplier g * 1.5
      else SPEED * speed_multiplier g)"

text \<open>
  The first block of \<^verbatim>\<open>Ghost::update\<close> (the scared timer and the flash timer). The rest
  of \<^verbatim>\<open>update\<close> chooses a direction and moves the ghost; in the branches for \<open>CHASING\<close>
  and \<open>SCARED\<close> it writes neither the state nor these timers.
\<close>

definition update_scared_timer :: "real \<Rightarrow> Ghost \<Rightarrow> Ghost" where
  "update_scared_timer delta_time g =
     (if current_state g = SCARED then
        (let g1 = g\<lparr>scared_timer := scared_timer g + delta_time\<rparr>;
             g2 = (if scared_timer g1 \<ge> scared_duration_actual g1
                   then g1\<lparr>current_state := CHASING, scared_timer := 0, flash_timer := 0\<rparr>
                   else g1)
         in g2\<lparr>flash_timer := flash_timer g2 + delta_time\<rparr>)
      else g)"


text \<open>\<^verbatim>\<open>fmod\<close> of the C library: the remainder of the division truncated towards zero.\<close>

definition fmod :: "real \<Rightarrow> real \<Rightarrow> real" where
  "fmod x y = x - real_of_int (to_int (x / y)) * y"

text \<open>
  \<^verbatim>\<open>Ghost::draw\<close>: the palette it passes to the sprite sheet (\<^verbatim>\<open>palette_to_use\<close>) for the
  ghost's sprite.
\<close>

definition draw_palette_to_use :: "Ghost \<Rightarrow> string" where
  "draw_palette_to_use g =
     (if current_state g = CAUGHT \<or> current_state g = COOLDOWN then ''BLACK_BLUE_WHITE''
      else if current_state g = SCARED then
        (let time_remaining = SCARED_DURATION - scared_timer g
         in if time_remaining \<le> WARNING_TIME then
              (let should_flash = (fmod (flash_timer g) 0.33 \<ge> 0.167)
               in if should_flash then ''RED_WHITE_GREEN'' else palette g)
            else palette g)
      else palette g)"

text \<open>\<^verbatim>\<open>Ghost::Ghost\<close>, followed by \<^verbatim>\<open>set_speed_multiplier\<close> as \<^verbatim>\<open>initialize_game_entities\<close> does.\<close>

definition new_ghost :: "real \<Rightarrow> real \<Rightarrow> string \<Rightarrow> GhostAIType \<Rightarrow> real \<Rightarrow> real \<Rightarrow> Ghost" where
  "new_ghost start_x start_y pal ai multiplier uninitialised =
     \<lparr> pos_x = start_x, pos_y = start_y, dir = DIR_NONE, desired_dir = DIR_NONE,
       palette = pal, speed_multiplier = multiplier,
       anim_state = FRAME_1, anim_timer = 0, target_x = 0, target_y = 0,
       escape_target_x = 0, escape_target_y = 0, current_state = CHASING,
       scared_timer = 0, scared_duration_actual = uninitialised,
       home_x = get_cell_center_x (MAZE_COLS div 2),
       home_y = get_cell_center_y (MAZE_ROWS div 2),
       flash_timer = 0, cooldown_timer = 0, ai_type = ai,
       random_target_dir = DIR_RIGHT, random_dir_timer = 0,
       show_score_popup = False, popup_timer = 0, popup_x = 0, popup_y = 0 \<rparr>"

subsection \<open>Tokens and game state\<close>

text \<open>
  \<^verbatim>\<open>class Token\<close> and \<^verbatim>\<open>class PowerPellet\<close>: the fields \<^verbatim>\<open>row_\<close>, \<^verbatim>\<open>col_\<close>, \<^verbatim>\<open>collected_\<close>.
\<close>

record Token =
  tok_row :: int
  tok_col :: int
  tok_collected :: bool

record PowerPellet =
  pp_row :: int
  pp_col :: int
  pp_collected :: bool

definition new_token :: "int \<Rightarrow> int \<Rightarrow> Token" where
  "new_token r c = \<lparr> tok_row = r, tok_col = c, tok_collected = False \<rparr>"

definition new_power_pellet :: "int \<Rightarrow> int \<Rightarrow> PowerPellet" where
  "new_power_pellet r c = \<lparr> pp_row = r, pp_col = c, pp_collected = False \<rparr>"

definition token_get_x :: "Token \<Rightarrow> real" where
  "token_get_x t = get_cell_center_x (tok_col t)"

definition token_get_y :: "Token \<Rightarrow> real" where
  "token_get_y t = get_cell_center_y (tok_row t)"

definition power_pellet_get_x :: "PowerPellet \<Rightarrow> real" where
  "power_pellet_get_x t = get_cell_center_x (pp_col t)"

definition power_pellet_get_y :: "PowerPellet \<Rightarrow> real" where
  "power_pellet_get_y t = get_cell_center_y (pp_row t)"

record GameState =
  score :: int
  tokens_collected :: int
  total_tokens :: int
  tokens :: "Token list"
  power_pellets :: "PowerPellet list"
  token_just_collected :: bool

text \<open>\<^verbatim>\<open>GameState::GameState\<close>.\<close>

definition new_game_state :: GameState where
  "new_game_state = \<lparr> score = 0, tokens_collected = 0, total_tokens = 0, tokens = [],
     power_pellets = [], token_just_collected = False \<rparr>"

definition add_score :: "int \<Rightarrow> GameState \<Rightarrow> GameState" where
  "add_score points gs = gs\<lparr>score := score gs + points\<rparr>"

definition add_token :: "int \<Rightarrow> int \<Rightarrow> GameState \<Rightarrow> GameState" where
  "add_token r c gs = gs\<lparr>tokens := tokens gs @ [new_token r c], total_tokens := total_tokens gs + 1\<rparr>"

definition add_power_pellet :: "int \<Rightarrow> int \<Rightarrow> GameState \<Rightarrow> GameState" where
  "add_power_pellet r c gs = gs\<lparr>power_pellets := power_pellets gs @ [new_power_pellet r c]\<rparr>"


definition reset_token_collection_flag :: "GameState \<Rightarrow> GameState" where
  "reset_token_collection_flag gs = gs\<lparr>token_just_collected := False\<rparr>"

fun count_collected_power_pellets_loop :: "PowerPellet list \<Rightarrow> int \<Rightarrow> int" where
  "count_collected_power_pellets_loop [] count = count"
| "count_collected_power_pellets_loop (p # ps) count =
     count_collected_power_pellets_loop ps (if pp_collected p then count + 1 else count)"

definition count_collected_power_pellets :: "GameState \<Rightarrow> int" where
  "count_collected_power_pellets gs = count_collected_power_pellets_loop (power_pellets gs) 0"

text \<open>
  The loop of \<^verbatim>\<open>check_token_collection\<close> over the tokens still to visit. It returns the
  visited tokens as the loop leaves them; the state it threads carries the score, the
  counter and the sound flag, and the local \<^verbatim>\<open>collected_any\<close> is the last argument.
\<close>

fun check_token_loop ::
  "real \<Rightarrow> real \<Rightarrow> Token list \<Rightarrow> GameState \<Rightarrow> bool \<Rightarrow> Token list \<times> GameState \<times> bool" where
  "check_token_loop pacman_x pacman_y [] gs collected_any = ([], gs, collected_any)"
| "check_token_loop pacman_x pacman_y (t # ts) gs collected_any =
     (let dx = pacman_x - token_get_x t;
          dy = pacman_y - token_get_y t;
          distance = sqrt (dx * dx + dy * dy)
      in if \<not> tok_collected t \<and> distance \<le> COLLECTION_DISTANCE then
           (case check_token_loop pacman_x pacman_y ts
                   ((add_score TOKEN_POINTS gs)
                      \<lparr>tokens_collected := tokens_collected gs + 1, token_just_collected := True\<rparr>)
                   True of
              (ts', gs', any') \<Rightarrow> (t\<lparr>tok_collected := True\<rparr> # ts', gs', any'))
         else
           (case check_token_loop pacman_x pacman_y ts gs collected_any of
              (ts', gs', any') \<Rightarrow> (t # ts', gs', any')))"

text \<open>\<^verbatim>\<open>check_token_collection\<close>: the returned flag and the state after the call.\<close>

definition check_token_collection :: "real \<Rightarrow> real \<Rightarrow> GameState \<Rightarrow> bool \<times> GameState" where
  "check_token_collection pacman_x pacman_y gs =
     (case check_token_loop pacman_x pacman_y (tokens gs) gs False of
        (ts', gs', any') \<Rightarrow> (any', gs'\<lparr>tokens := ts'\<rparr>))"

fun check_power_pellet_loop ::
  "real \<Rightarrow> real \<Rightarrow> PowerPellet list \<Rightarrow> GameState \<Rightarrow> bool
     \<Rightarrow> PowerPellet list \<times> GameState \<times> bool" where
  "check_power_pellet_loop pacman_x pacman_y [] gs collected_any = ([], gs, collected_any)"
| "check_power_pellet_loop pacman_x pacman_y (p # ps) gs collected_any =
     (let dx = pacman_x - power_pellet_get_x p;
          dy = pacman_y - power_pellet_get_y p;
          distance = sqrt (dx * dx + dy * dy)
      in if \<not> pp_collected p \<and> distance \<le> COLLECTION_DISTANCE then
           (case check_power_pellet_loop pacman_x pacman_y ps
                   (add_score POWER_PELLET_POINTS gs) True of
              (ps', gs', any') \<Rightarrow> (p\<lparr>pp_collected := True\<rparr> # ps', gs', any'))
         else
           (case check_power_pellet_loop pacman_x pacman_y ps gs collected_any of
              (ps', gs', any') \<Rightarrow> (p # ps', gs', any')))"

definition check_power_pellet_collection :: "real \<Rightarrow> real \<Rightarrow> GameState \<Rightarrow> bool \<times> GameState" where
  "check_power_pellet_collection pacman_x pacman_y gs =
     (case check_power_pellet_loop pacman_x pacman_y (power_pellets gs) gs False of
        (ps', gs', any') \<Rightarrow> (any', gs'\<lparr>power_pellets := ps'\<rparr>))"

text \<open>
  The calls that change a \<^verbatim>\<open>GameState\<close> object (all its non-const members but the
  drawing ones and \<^verbatim>\<open>update\<close>, which is declared and never defined). A state is reachable
  when a sequence of such calls leads to it from a newly constructed object.
\<close>

datatype GameStateCall =
    AddToken int int
  | AddPowerPellet int int
  | AddScore int
  | CheckTokenCollection real real
  | CheckPowerPelletCollection real real
  | ResetTokenCollectionFlag

fun do_call :: "GameStateCall \<Rightarrow> GameState \<Rightarrow> GameState" where
  "do_call (AddToken r c) gs = add_token r c gs"
| "do_call (AddPowerPellet r c) gs = add_power_pellet r c gs"
| "do_call (AddScore points) gs = add_score points gs"
| "do_call (CheckTokenCollection x y) gs = snd (check_token_collection x y gs)"
| "do_call (CheckPowerPelletCollection x y) gs = snd (check_power_pellet_collection x y gs)"
| "do_call ResetTokenCollectionFlag gs = reset_token_collection_flag gs"

fun do_calls :: "GameStateCall list \<Rightarrow> GameState \<Rightarrow> GameState" where
  "do_calls [] gs = gs"
| "do_calls (c # cs) gs = do_calls cs (do_call c gs)"

text \<open>The calls made after level initialisation: all but the two that add pellets.\<close>

fun is_play_call :: "GameStateCall \<Rightarrow> bool" where
  "is_play_call (AddToken r c) = False"
| "is_play_call (AddPowerPellet r c) = False"
| "is_play_call (AddScore points) = True"
| "is_play_call (CheckTokenCollection x y) = True"
| "is_play_call (CheckPowerPelletCollection x y) = True"
| "is_play_call ResetTokenCollectionFlag = True"

subsection \<open>Pac-Man, menu and game\<close>

datatype PacmanAnimationState = OPEN | CLOSING | CLOSED

record Pacman = Entity +
  pacman_anim_state :: PacmanAnimationState
  pacman_anim_timer :: real
  is_in_power_mode :: bool

datatype GameMode = STARTING | NORMAL | POWER_MODE | GAME_OVER | VICTORY

datatype MenuState =
  MAIN_MENU | LEVEL_SELECT | DIFFICULTY | HIGH_SCORES | SETTINGS | NAME_ENTRY | IN_GAME

text \<open>The members of \<^verbatim>\<open>class Menu\<close> that the collision handling reads or writes.\<close>

record Menu =
  menu_state :: MenuState
  should_start_game :: bool
  endless_mode :: bool
  pending_score :: int
  name_letters :: string
  name_cursor_position :: int
  name_entry_complete :: bool
  selected_option :: int

definition start_name_entry :: "int \<Rightarrow> Menu \<Rightarrow> Menu" where
  "start_name_entry final_score mn =
     mn\<lparr>pending_score := final_score, name_letters := ''AAA'', name_cursor_position := 0,
        name_entry_complete := False, menu_state := NAME_ENTRY, selected_option := 0\<rparr>"

definition reset_game_start_flag :: "Menu \<Rightarrow> Menu" where
  "reset_game_start_flag mn = mn\<lparr>should_start_game := False\<rparr>"

definition set_state :: "MenuState \<Rightarrow> Menu \<Rightarrow> Menu" where
  "set_state st mn = mn\<lparr>menu_state := st\<rparr>"

text \<open>
  Calls into the sound manager and the graphics library, and the blocking death
  animation (which only draws): they are recorded in the order they are made.
\<close>

datatype ExternalCall =
    StopAllBackgroundSounds
  | PlayGhostEatSound
  | PlayGhostRetreatSound
  | PlaySoundEffect string
  | PlayDyingAnimation
  | DrawText string
  | RefreshScreen
  | Delay int

definition GAME_OVER_DISPLAY_TIME :: int where "GAME_OVER_DISPLAY_TIME = 3000"

text \<open>
  \<^verbatim>\<open>class Game\<close>: the objects and flags used by the functions below, the static local
  \<^verbatim>\<open>previous_power_pellets\<close> of \<^verbatim>\<open>Game::update\<close>, and the record of external calls.
\<close>

record Game =
  maze :: Maze
  pacman :: Pacman
  ghost1 :: Ghost
  ghost2 :: Ghost
  game_state :: GameState
  menu :: Menu
  running :: bool
  game_initialized :: bool
  current_game_mode :: GameMode
  previous_game_mode :: GameMode
  current_level :: int
  previous_power_pellets :: int
  external_calls :: "ExternalCall list"

text \<open>
  The branch \<^verbatim>\<open>else if (!ghost->is_caught())\<close> of \<^verbatim>\<open>handle_ghost_collisions\<close>, up to its
  \<^verbatim>\<open>return\<close>; the source has the same text for both ghosts.
\<close>

definition fatal_collision :: "Game \<Rightarrow> Game" where
  "fatal_collision g =
     (let g1 = g\<lparr>current_game_mode := GAME_OVER,
                 external_calls := external_calls g @
                   [StopAllBackgroundSounds, PlaySoundEffect ''die'', PlayDyingAnimation,
                    DrawText ''GAME OVER!'', RefreshScreen, Delay GAME_OVER_DISPLAY_TIME]\<rparr>
      in if endless_mode (menu g1) then
           g1\<lparr>menu := start_name_entry (score (game_state g1)) (menu g1),
              game_initialized := False\<rparr>
         else
           g1\<lparr>menu := set_state MAIN_MENU (reset_game_start_flag (menu g1)),
              game_initialized := False\<rparr>)"

text \<open>
  \<^verbatim>\<open>Game::handle_ghost_collisions\<close>. The value \<open>Inl\<close> is the early \<^verbatim>\<open>return\<close> from the
  block of the first ghost.
\<close>

definition handle_ghost_collisions :: "Game \<Rightarrow> Game" where
  "handle_ghost_collisions g =
     (let dx1 = pos_x (pacman g) - pos_x (ghost1 g);
          dy1 = pos_y (pacman g) - pos_y (ghost1 g);
          distance1 = sqrt (dx1 * dx1 + dy1 * dy1)
      in case (if distance1 \<le> COLLISION_DISTANCE \<and> can_interact (ghost1 g) then
                 (if is_scared (ghost1 g) then
                    Inr (g\<lparr>ghost1 := (let gh = set_caught_mode (ghost1 g)
                                        in trigger_score_popup (pos_x gh) (pos_y gh) gh),
                           game_state := add_score 400 (game_state g),
                           external_calls := external_calls g @
                             [PlayGhostEatSound, PlayGhostRetreatSound]\<rparr>)
                  else if \<not> is_caught (ghost1 g) then Inl (fatal_collision g)
                  else Inr g)
               else Inr g) of
           Inl r \<Rightarrow> r
         | Inr g1 \<Rightarrow>
             (let dx2 = pos_x (pacman g1) - pos_x (ghost2 g1);
                  dy2 = pos_y (pacman g1) - pos_y (ghost2 g1);
                  distance2 = sqrt (dx2 * dx2 + dy2 * dy2)
              in if distance2 \<le> COLLISION_DISTANCE \<and> can_interact (ghost2 g1) then
                   (if is_scared (ghost2 g1) then
                      g1\<lparr>ghost2 := (let gh = set_caught_mode (ghost2 g1)
                                      in trigger_score_popup (pos_x gh) (pos_y gh) gh),
                         game_state := add_score 400 (game_state g1),
                         external_calls := external_calls g1 @
                           [PlayGhostEatSound, PlayGhostRetreatSound]\<rparr>
                    else if \<not> is_caught (ghost2 g1) then fatal_collision g1
                    else g1)
                 else g1))"



subsection \<open>Notions used to state the properties of the movement\<close>

text \<open>
  The cell an entity is in, as \<^verbatim>\<open>move_in_direction\<close> computes it (its locals \<^verbatim>\<open>col\<close> and
  \<^verbatim>\<open>row\<close>), and the query \<^verbatim>\<open>attempt_direction_change\<close> makes from there: whether the cell
  next to it in the desired direction is open.
\<close>

definition cell_col :: "'a Entity_scheme \<Rightarrow> int" where
  "cell_col e = to_int (pos_x e / real_of_int CELL_SIZE)"

definition cell_row :: "'a Entity_scheme \<Rightarrow> int" where
  "cell_row e = to_int (pos_y e / real_of_int CELL_SIZE)"

definition desired_cell_open :: "Maze \<Rightarrow> 'a Entity_scheme \<Rightarrow> bool option" where
  "desired_cell_open m e =
     (case get_next_cell (desired_dir e) (cell_row e) (cell_col e) of
        (next_row, next_col) \<Rightarrow> is_empty m next_row next_col)"

text \<open>
  A run of updates during which, at the start of every update, the desired direction
  points into a cell that is not open.
\<close>

fun desired_blocked_run ::
  "('a Entity_scheme \<Rightarrow> real) \<Rightarrow> Maze \<Rightarrow> real list \<Rightarrow> 'a Entity_scheme \<Rightarrow> bool" where
  "desired_blocked_run spd m [] e = True"
| "desired_blocked_run spd m (dt # dts) e =
     (desired_cell_open m e = Some False \<and>
      (case entity_update spd m dt e of
         None \<Rightarrow> True
       | Some e' \<Rightarrow> desired_blocked_run spd m dts e'))"

text \<open>
  The test of the loop of \<^verbatim>\<open>check_token_collection\<close> on one token (its distance to
  Pac-Man is at most \<open>COLLECTION_DISTANCE\<close>), the number of collected tokens of a list, and
  the relation between the counters and the token list.
\<close>

definition token_in_reach :: "real \<Rightarrow> real \<Rightarrow> Token \<Rightarrow> bool" where
  "token_in_reach pacman_x pacman_y t \<longleftrightarrow>
     sqrt ((pacman_x - token_get_x t) * (pacman_x - token_get_x t) +
           (pacman_y - token_get_y t) * (pacman_y - token_get_y t)) \<le> COLLECTION_DISTANCE"

definition count_collected :: "Token list \<Rightarrow> int" where
  "count_collected ts = int (length (filter tok_collected ts))"

definition game_state_inv :: "GameState \<Rightarrow> bool" where
  "game_state_inv gs \<longleftrightarrow>
     tokens_collected gs = count_collected (tokens gs) \<and>
     total_tokens gs = int (length (tokens gs))"

text \<open>
  The tests of \<^verbatim>\<open>handle_ghost_collisions\<close> on one ghost: the distance test, the test that
  leads to the capture of the ghost, and the test that leads to the fatal branch.
\<close>

definition ghost_in_reach :: "Pacman \<Rightarrow> Ghost \<Rightarrow> bool" where
  "ghost_in_reach p gh \<longleftrightarrow>
     sqrt ((pos_x p - pos_x gh) * (pos_x p - pos_x gh) +
           (pos_y p - pos_y gh) * (pos_y p - pos_y gh)) \<le> COLLISION_DISTANCE"

definition catches :: "Pacman \<Rightarrow> Ghost \<Rightarrow> bool" where
  "catches p gh \<longleftrightarrow> ghost_in_reach p gh \<and> can_interact gh \<and> is_scared gh"

definition fatal_for :: "Pacman \<Rightarrow> Ghost \<Rightarrow> bool" where
  "fatal_for p gh \<longleftrightarrow>
     ghost_in_reach p gh \<and> can_interact gh \<and> \<not> is_scared gh \<and> \<not> is_caught gh"

subsection \<open>Concrete states used in the instances below\<close>

text \<open>
  An entity in the top left corner cell (row 1, column 1) of the built-in layout, two
  pixels left of the cell centre, heading left with UP requested: the cell above and the
  cell to the left are walls.
\<close>

definition corner_entity :: Entity where
  "corner_entity = \<lparr> pos_x = 58, pos_y = 60, dir = DIR_LEFT, desired_dir = DIR_UP,
     palette = ''YELLOW_PINK_SKY'', speed_multiplier = 1 \<rparr>"

text \<open>
  An entity at rest in that cell, two pixels right of and two pixels above the cell
  centre (60, 60), with RIGHT requested: the cells (1, 2) and (2, 1) are open.
\<close>

definition turning_entity :: Entity where
  "turning_entity = \<lparr> pos_x = 62, pos_y = 58, dir = DIR_NONE, desired_dir = DIR_RIGHT,
     palette = ''YELLOW_PINK_SKY'', speed_multiplier = 1 \<rparr>"

text \<open>
  A ghost created at difficulty CRAZY (speed multiplier 2.0), 160 pixels above its home
  position (500, 260); the same ghost on the centre of cell (1, 1) with RIGHT requested;
  and the first one after it was scared and then updated 156 times with a frame time of
  1/30 s (5.2 s in all).
\<close>

definition crazy_ghost :: Ghost where
  "crazy_ghost = new_ghost 500 100 ''RED_BLUE_WHITE'' RANDOM_PATROL 2 0"

definition crazy_ghost_in_corner :: Ghost where
  "crazy_ghost_in_corner = crazy_ghost\<lparr>pos_x := 60, pos_y := 60, desired_dir := DIR_RIGHT\<rparr>"

definition late_scared_ghost :: Ghost where
  "late_scared_ghost = (update_scared_timer (1/30) ^^ 156) (set_scared_mode crazy_ghost)"

text \<open>
  A game in play at difficulty MEDIUM: Pac-Man at (60, 60), the first ghost 10 pixels to
  its right and the second 10 pixels above it, in the given states.
\<close>

definition sample_pacman :: Pacman where
  "sample_pacman = \<lparr> pos_x = 60, pos_y = 60, dir = DIR_NONE, desired_dir = DIR_NONE,
     palette = ''YELLOW_PINK_SKY'', speed_multiplier = 1,
     pacman_anim_state = OPEN, pacman_anim_timer = 0, is_in_power_mode = False \<rparr>"

definition sample_menu :: Menu where
  "sample_menu = \<lparr> menu_state = IN_GAME, should_start_game = False, endless_mode = True,
     pending_score = 0, name_letters = ''AAA'', name_cursor_position = 0,
     name_entry_complete = False, selected_option = 0 \<rparr>"

definition sample_game :: "GhostState \<Rightarrow> GhostState \<Rightarrow> Game" where
  "sample_game s1 s2 =
     \<lparr> maze = fallback_maze, pacman = sample_pacman,
       ghost1 = (new_ghost 70 60 ''RED_BLUE_WHITE'' RANDOM_PATROL 1 15)\<lparr>current_state := s1\<rparr>,
       ghost2 = (new_ghost 60 50 ''PINK_BLUE_WHTE'' AMBUSHER 1 15)\<lparr>current_state := s2\<rparr>,
       game_state = new_game_state, menu = sample_menu, running = True,
       game_initialized = True, current_game_mode = NORMAL, previous_game_mode = NORMAL,
       current_level = 1, previous_power_pellets = 0, external_calls = [] \<rparr>"


text \<open>A game state with the two tokens of the cells (1, 1) and (1, 2), none collected.\<close>

definition two_token_state :: GameState where
  "two_token_state = do_calls [AddToken 1 1, AddToken 1 2] new_game_state"

section \<open>Properties\<close>

subsection \<open>Maze queries\<close>

lemma maze_wf_fallback: "maze_wf fallback_maze"
  by (simp add: maze_wf_def fallback_maze_def fallback_layout_def MAZE_ROWS_def MAZE_COLS_def)

lemma vec_at_in_range: "0 \<le> i \<Longrightarrow> i < int (length xs) \<Longrightarrow> vec_at xs i = Some (xs ! nat i)"
  by (simp add: vec_at_def)

lemma is_empty_wf:
  assumes "maze_wf m"
  shows "is_empty m row col \<noteq> None"
proof (cases "is_valid_position row col")
  case False
  then show ?thesis by (simp add: is_empty_def)
next
  case True
  then have r: "0 \<le> row" "row < int (length (maze_layout m))" and c: "0 \<le> col" "col < MAZE_COLS"
    using assms by (simp_all add: is_valid_position_def maze_wf_def)
  have "nat row < length (maze_layout m)" using r by linarith
  then have "maze_layout m ! nat row \<in> set (maze_layout m)" by simp
  then have "int (length (maze_layout m ! nat row)) = MAZE_COLS"
    using assms by (simp add: maze_wf_def list_all_iff)
  then have "col < int (length (maze_layout m ! nat row))" using c by simp
  then show ?thesis
    using True r c by (simp add: is_empty_def vec_at_in_range)
qed

lemma is_empty_or_tunnel_wf:
  assumes "maze_wf m"
  shows "is_empty_or_tunnel m row col \<noteq> None"
  using is_empty_wf [OF assms, of row col] by (auto simp: is_empty_or_tunnel_def)

lemma can_move_to_wf:
  assumes "maze_wf m"
  shows "can_move_to m x y \<noteq> None"
proof -
  have t: "\<And>r c. is_empty_or_tunnel m r c \<noteq> None"
    using is_empty_or_tunnel_wf [OF assms] by simp
  have a: "\<And>p q. p \<noteq> None \<Longrightarrow> q \<noteq> None \<Longrightarrow> and_also p q \<noteq> None"
    by (auto simp: and_also_def split: option.splits bool.splits)
  show ?thesis
    unfolding can_move_to_def Let_def by (intro a t)
qed

text \<open>
  C8. The maze cell queries never read the layout outside the grid: for every (row, col)
  outside the 13 x 25 grid \<open>is_empty\<close> returns false, whatever the layout; and
  \<open>is_empty_or_tunnel\<close> does the same except on row 6 with a column outside [0, 25),
  where it returns true. On a maze that satisfies the class invariant both queries
  return a value at every integer (row, col).
\<close>

theorem maze_queries_total:
  "(row < 0 \<or> 13 \<le> row \<or> col < 0 \<or> 25 \<le> col \<longrightarrow> is_empty m row col = Some False) \<and>
   (col < 0 \<or> 25 \<le> col \<longrightarrow> is_empty_or_tunnel m 6 col = Some True) \<and>
   ((row < 0 \<or> 13 \<le> row \<or> col < 0 \<or> 25 \<le> col) \<and> row \<noteq> 6 \<longrightarrow>
      is_empty_or_tunnel m row col = Some False) \<and>
   (0 \<le> col \<and> col < 25 \<and> (row < 0 \<or> 13 \<le> row) \<longrightarrow>
      is_empty_or_tunnel m row col = Some False) \<and>
   (maze_wf m \<longrightarrow> is_empty m row col \<noteq> None \<and> is_empty_or_tunnel m row col \<noteq> None)"
proof -
  have out: "is_empty m r c = Some False" if "r < 0 \<or> 13 \<le> r \<or> c < 0 \<or> 25 \<le> c" for r c
    using that by (auto simp: is_empty_def is_valid_position_def MAZE_ROWS_def MAZE_COLS_def)
  have tun: "is_empty_or_tunnel m 6 c = Some True" if "c < 0 \<or> 25 \<le> c" for c
    using that by (auto simp: is_empty_or_tunnel_def MAZE_COLS_def)
  have oth: "is_empty_or_tunnel m r c = Some False"
    if "r < 0 \<or> 13 \<le> r \<or> c < 0 \<or> 25 \<le> c" "r \<noteq> 6" for r c
    using that out [of r c] by (simp add: is_empty_or_tunnel_def)
  show ?thesis
    using out [of row col] tun [of col] oth [of row col]
      is_empty_wf [of m row col] is_empty_or_tunnel_wf [of m row col]
    by auto
qed

theorem maze_queries_total_witness:
  "is_empty fallback_maze (-1) 30 = Some False \<and>
   is_empty_or_tunnel fallback_maze 6 30 = Some True \<and>
   is_empty_or_tunnel fallback_maze (-1) 30 = Some False \<and>
   is_empty_or_tunnel fallback_maze (-1) 3 = Some False \<and>
   maze_wf fallback_maze \<and>
   is_empty fallback_maze 6 3 \<noteq> None \<and>
   is_empty_or_tunnel fallback_maze 6 3 \<noteq> None"
  using maze_queries_total [of "-1" 30 fallback_maze] maze_queries_total [of "-1" 3 fallback_maze]
    maze_queries_total [of 6 3 fallback_maze] maze_wf_fallback
  by simp

subsection \<open>Entity movement\<close>

lemma to_int_numeral_simps:
  "to_int (numeral a / numeral b) = numeral a div numeral b"
  "to_int (numeral a) = numeral a"
  "to_int 0 = 0"
  by (simp_all add: to_int_def floor_divide_of_nat_eq)

lemmas maze_eval =
  can_move_to_def CELL_SIZE_def PACMAN_RADIUS_OFFSET_def to_int_numeral_simps and_also_def
  is_empty_or_tunnel_def is_empty_def is_valid_position_def MAZE_ROWS_def MAZE_COLS_def
  vec_at_def fallback_maze_def fallback_layout_def get_cell_center_x_def get_cell_center_y_def

lemmas entity_eval =
  entity_update_def move_in_direction_def attempt_direction_change_def attempt_movement_def
  snap_to_grid_if_close_def entity_get_current_speed_def SPEED_def ALIGNMENT_TOLERANCE_def
  cell_col_def cell_row_def desired_cell_open_def

lemma attempt_movement_blocked:
  assumes "can_move_to m (fst (get_next_position spd e (dir e) dt))
             (snd (get_next_position spd e (dir e) dt)) = Some False"
  shows "attempt_movement spd m cx cy dt e = Some (e\<lparr>dir := DIR_NONE\<rparr>)"
  using assms by (simp add: attempt_movement_def split_beta)

lemma attempt_movement_wf:
  assumes "maze_wf m"
  shows "attempt_movement spd m cx cy dt e \<noteq> None"
proof -
  obtain b where "can_move_to m (fst (get_next_position spd e (dir e) dt))
      (snd (get_next_position spd e (dir e) dt)) = Some b"
    using can_move_to_wf [OF assms] by blast
  then show ?thesis
    by (cases b) (simp_all add: attempt_movement_def split_beta)
qed

lemma attempt_direction_change_wf:
  assumes "maze_wf m"
  shows "attempt_direction_change m row col cx cy e \<noteq> None"
proof -
  obtain b where "is_empty m (fst (get_next_cell (desired_dir e) row col))
      (snd (get_next_cell (desired_dir e) row col)) = Some b"
    using is_empty_wf [OF assms] by blast
  then show ?thesis
    by (cases b) (simp_all add: attempt_direction_change_def split_beta)
qed

lemma entity_update_wf:
  assumes "maze_wf m"
  shows "entity_update spd m dt e \<noteq> None"
proof (cases "desired_dir e \<noteq> DIR_NONE \<and> desired_dir e \<noteq> dir e")
  case True
  define col where "col = to_int (pos_x e / real_of_int CELL_SIZE)"
  define row where "row = to_int (pos_y e / real_of_int CELL_SIZE)"
  obtain e1 where
    "attempt_direction_change m row col (get_cell_center_x col) (get_cell_center_y row) e = Some e1"
    using attempt_direction_change_wf [OF assms] by blast
  then show ?thesis
    using True attempt_movement_wf [OF assms, of spd _ _ dt e1]
    by (simp add: entity_update_def move_in_direction_def Let_def col_def row_def)
next
  case False
  then show ?thesis
    using attempt_movement_wf [OF assms, of spd _ _ dt e]
    by (auto simp: entity_update_def move_in_direction_def Let_def)
qed

lemma repeat_update_wf:
  assumes "maze_wf m"
  shows "repeat_update spd m dts e \<noteq> None"
proof (induction dts arbitrary: e)
  case Nil
  show ?case by simp
next
  case (Cons dt dts)
  obtain e1 where "entity_update spd m dt e = Some e1"
    using entity_update_wf [OF assms, of spd dt e] by auto
  then show ?case using Cons.IH [of e1] by simp
qed

text \<open>What the movement step does to the direction and the desired direction.\<close>

lemma attempt_movement_dir:
  assumes "attempt_movement spd m cx cy dt e = Some e'"
  shows "(dir e' = dir e \<or> dir e' = DIR_NONE) \<and> desired_dir e' = desired_dir e"
  using assms
  by (auto simp: attempt_movement_def snap_to_grid_if_close_def split_beta Let_def
      split: if_splits option.splits bool.splits)

lemma attempt_movement_perp:
  assumes "attempt_movement spd m cx cy dt e = Some e'"
  shows "((dir e = DIR_LEFT \<or> dir e = DIR_RIGHT) \<and> pos_y e = cy \<longrightarrow> pos_y e' = cy) \<and>
         ((dir e = DIR_UP \<or> dir e = DIR_DOWN) \<and> pos_x e = cx \<longrightarrow> pos_x e' = cx)"
  using assms
  by (cases "dir e")
     (auto simp: attempt_movement_def snap_to_grid_if_close_def split_beta Let_def
      split: if_splits option.splits bool.splits)

lemma attempt_direction_change_cases:
  assumes "attempt_direction_change m row col cx cy e = Some e1"
  shows "e1 = e \<or>
         (is_aligned_for_direction e (desired_dir e) cx cy \<and>
          (case get_next_cell (desired_dir e) row col of (r, c) \<Rightarrow> is_empty m r c) = Some True \<and>
          e1 = (align_to_grid e (desired_dir e) cx cy)\<lparr>dir := desired_dir e\<rparr>)"
  using assms
  by (auto simp: attempt_direction_change_def split_beta Let_def
      split: if_splits option.splits bool.splits)

lemma entity_update_phases:
  "entity_update spd m dt e =
     (case (if desired_dir e \<noteq> DIR_NONE \<and> desired_dir e \<noteq> dir e
            then attempt_direction_change m (cell_row e) (cell_col e)
                   (get_cell_center_x (cell_col e)) (get_cell_center_y (cell_row e)) e
            else Some e) of
        None \<Rightarrow> None
      | Some e1 \<Rightarrow>
          attempt_movement spd m (get_cell_center_x (cell_col e))
            (get_cell_center_y (cell_row e)) dt e1)"
  unfolding entity_update_def move_in_direction_def Let_def cell_col_def cell_row_def
  by (rule refl)

lemma entity_update_dir:
  fixes e :: "'a Entity_scheme"
  assumes "entity_update spd m dt e = Some e'"
  shows "desired_dir e' = desired_dir e \<and>
     (dir e' = dir e \<or> dir e' = DIR_NONE \<or>
      (dir e' = desired_dir e \<and> desired_dir e \<noteq> DIR_NONE \<and>
       desired_cell_open m e = Some True \<and>
       ((desired_dir e = DIR_LEFT \<or> desired_dir e = DIR_RIGHT) \<longrightarrow>
          \<bar>pos_y e - get_cell_center_y (cell_row e)\<bar> < 4 \<and>
          pos_y e' = get_cell_center_y (cell_row e)) \<and>
       ((desired_dir e = DIR_UP \<or> desired_dir e = DIR_DOWN) \<longrightarrow>
          \<bar>pos_x e - get_cell_center_x (cell_col e)\<bar> < 4 \<and>
          pos_x e' = get_cell_center_x (cell_col e))))"
proof -
  define cx where "cx = get_cell_center_x (cell_col e)"
  define cy where "cy = get_cell_center_y (cell_row e)"
  obtain e1 where
    ph: "(if desired_dir e \<noteq> DIR_NONE \<and> desired_dir e \<noteq> dir e
          then attempt_direction_change m (cell_row e) (cell_col e) cx cy e else Some e) = Some e1"
    and mv: "attempt_movement spd m cx cy dt e1 = Some e'"
    using assms unfolding entity_update_phases cx_def cy_def
    by (auto split: option.splits)
  note d = attempt_movement_dir [OF mv] and p = attempt_movement_perp [OF mv]
  show ?thesis
  proof (cases "e1 = e")
    case True
    then show ?thesis using d by auto
  next
    case False
    then have ch: "attempt_direction_change m (cell_row e) (cell_col e) cx cy e = Some e1"
      and nn: "desired_dir e \<noteq> DIR_NONE"
      using ph by (auto split: if_splits)
    from attempt_direction_change_cases [OF ch] False
    have al: "is_aligned_for_direction e (desired_dir e) cx cy"
      and op: "desired_cell_open m e = Some True"
      and e1: "e1 = (align_to_grid e (desired_dir e) cx cy)\<lparr>dir := desired_dir e\<rparr>"
      by (auto simp: desired_cell_open_def)
    show ?thesis
      using d p al op nn unfolding e1 cx_def [symmetric] cy_def [symmetric]
      by (cases "desired_dir e") (auto simp: ALIGNMENT_TOLERANCE_def)
  qed
qed

lemma entity_update_desired_blocked:
  assumes "entity_update spd m dt e = Some e'" and "desired_cell_open m e = Some False"
  shows "(dir e' = dir e \<or> dir e' = DIR_NONE) \<and> desired_dir e' = desired_dir e"
  using entity_update_dir [OF assms(1)] assms(2) by auto

lemma repeat_update_desired_blocked:
  assumes "repeat_update spd m dts e = Some e'" and "desired_blocked_run spd m dts e"
  shows "(dir e' = dir e \<or> dir e' = DIR_NONE) \<and> desired_dir e' = desired_dir e"
  using assms
proof (induction dts arbitrary: e)
  case Nil
  then show ?case by simp
next
  case (Cons dt dts)
  from Cons.prems(1) obtain e1 where
    u: "entity_update spd m dt e = Some e1" and r: "repeat_update spd m dts e1 = Some e'"
    by (auto split: option.splits)
  from Cons.prems(2) u have b: "desired_cell_open m e = Some False"
    and run: "desired_blocked_run spd m dts e1" by auto
  from entity_update_desired_blocked [OF u b] Cons.IH [OF r run]
  show ?case by auto
qed

lemma stopped_entity_stays:
  assumes "dir e = DIR_NONE" and "desired_cell_open m e = Some False"
  shows "entity_update spd m dt e = Some e"
  using assms
  by (auto simp: entity_update_def move_in_direction_def Let_def attempt_direction_change_def
      attempt_movement_def desired_cell_open_def cell_row_def cell_col_def split_beta)

lemma stopped_entity_stays_run:
  assumes "dir e = DIR_NONE" and "desired_cell_open m e = Some False"
  shows "repeat_update spd m dts e = Some e"
  by (induction dts) (simp_all add: stopped_entity_stays [OF assms])


text \<open>
  C4. When the candidate position, the current position advanced by speed times frame
  time along the current direction, is rejected by \<open>can_move_to\<close>, the movement step
  returns the entity with only its direction changed, to \<open>DIR_NONE\<close>: the position is
  the one the step started from. For a whole update this is the entity as the
  direction-change step left it (unchanged when no change of direction is pending).
\<close>

theorem blocked_movement_cancelled:
  "(can_move_to m (fst (get_next_position spd e (dir e) dt))
        (snd (get_next_position spd e (dir e) dt)) = Some False \<longrightarrow>
      attempt_movement spd m cx cy dt e = Some (e\<lparr>dir := DIR_NONE\<rparr>)) \<and>
   ((desired_dir e = DIR_NONE \<or> desired_dir e = dir e) \<and>
    can_move_to m (fst (get_next_position spd e (dir e) dt))
        (snd (get_next_position spd e (dir e) dt)) = Some False \<longrightarrow>
      entity_update spd m dt e = Some (e\<lparr>dir := DIR_NONE\<rparr>)) \<and>
   (desired_dir e \<noteq> DIR_NONE \<and> desired_dir e \<noteq> dir e \<and>
    attempt_direction_change m (cell_row e) (cell_col e)
        (get_cell_center_x (cell_col e)) (get_cell_center_y (cell_row e)) e = Some e1 \<and>
    can_move_to m (fst (get_next_position spd e1 (dir e1) dt))
        (snd (get_next_position spd e1 (dir e1) dt)) = Some False \<longrightarrow>
      entity_update spd m dt e = Some (e1\<lparr>dir := DIR_NONE\<rparr>))"
  using attempt_movement_blocked [of m spd e dt] attempt_movement_blocked [of m spd e1 dt]
  by (auto simp: entity_update_phases)

theorem blocked_movement_cancelled_witness:
  "can_move_to fallback_maze
      (fst (get_next_position entity_get_current_speed corner_entity (dir corner_entity) (1/60)))
      (snd (get_next_position entity_get_current_speed corner_entity (dir corner_entity) (1/60)))
      = Some False \<and>
   attempt_movement entity_get_current_speed fallback_maze 60 60 (1/60) corner_entity
      = Some (corner_entity\<lparr>dir := DIR_NONE\<rparr>) \<and>
   desired_dir corner_entity \<noteq> DIR_NONE \<and> desired_dir corner_entity \<noteq> dir corner_entity \<and>
   attempt_direction_change fallback_maze (cell_row corner_entity) (cell_col corner_entity)
      (get_cell_center_x (cell_col corner_entity)) (get_cell_center_y (cell_row corner_entity))
      corner_entity = Some corner_entity \<and>
   entity_update entity_get_current_speed fallback_maze (1/60) corner_entity
      = Some (corner_entity\<lparr>dir := DIR_NONE\<rparr>) \<and>
   desired_dir (corner_entity\<lparr>desired_dir := DIR_NONE\<rparr>) = DIR_NONE \<and>
   can_move_to fallback_maze
      (fst (get_next_position entity_get_current_speed (corner_entity\<lparr>desired_dir := DIR_NONE\<rparr>)
              (dir (corner_entity\<lparr>desired_dir := DIR_NONE\<rparr>)) (1/60)))
      (snd (get_next_position entity_get_current_speed (corner_entity\<lparr>desired_dir := DIR_NONE\<rparr>)
              (dir (corner_entity\<lparr>desired_dir := DIR_NONE\<rparr>)) (1/60)))
      = Some False \<and>
   entity_update entity_get_current_speed fallback_maze (1/60)
      (corner_entity\<lparr>desired_dir := DIR_NONE\<rparr>)
      = Some (corner_entity\<lparr>desired_dir := DIR_NONE, dir := DIR_NONE\<rparr>)"
  using blocked_movement_cancelled
      [of fallback_maze entity_get_current_speed corner_entity "1/60" 60 60 corner_entity]
    blocked_movement_cancelled
      [of fallback_maze entity_get_current_speed "corner_entity\<lparr>desired_dir := DIR_NONE\<rparr>"
          "1/60" 60 60 corner_entity]
  by (simp add: corner_entity_def entity_eval maze_eval)

text \<open>
  C3 (as amended). One update leaves the desired direction as it is, and the current
  direction either stays, or becomes \<open>DIR_NONE\<close> (set by the movement step), or becomes
  the desired direction; in the last case the desired direction is not \<open>DIR_NONE\<close>, the
  cell next to the entity's cell in that direction is open, the entity's distance to
  the cell centre on the perpendicular axis was below 4 pixels, and after the update
  the perpendicular coordinate is the cell centre's. Over a run of updates in which the
  desired direction points into a cell that is not open at every update, the current
  direction is never set to the desired direction: at the end it is the initial one or
  \<open>DIR_NONE\<close>. An entity at rest whose desired direction points into such a cell is left
  exactly as it is by any number of updates. On a maze with a 13 x 25 layout every run
  of updates returns.
\<close>

theorem direction_change_commit:
  "(entity_update spd m dt e = Some e' \<longrightarrow>
      desired_dir e' = desired_dir e \<and>
      (dir e' = dir e \<or> dir e' = DIR_NONE \<or>
       (dir e' = desired_dir e \<and> desired_dir e \<noteq> DIR_NONE \<and>
        desired_cell_open m e = Some True \<and>
        ((desired_dir e = DIR_LEFT \<or> desired_dir e = DIR_RIGHT) \<longrightarrow>
           \<bar>pos_y e - get_cell_center_y (cell_row e)\<bar> < 4 \<and>
           pos_y e' = get_cell_center_y (cell_row e)) \<and>
        ((desired_dir e = DIR_UP \<or> desired_dir e = DIR_DOWN) \<longrightarrow>
           \<bar>pos_x e - get_cell_center_x (cell_col e)\<bar> < 4 \<and>
           pos_x e' = get_cell_center_x (cell_col e))))) \<and>
   (repeat_update spd m dts e = Some e2 \<and> desired_blocked_run spd m dts e \<longrightarrow>
      (dir e2 = dir e \<or> dir e2 = DIR_NONE) \<and> desired_dir e2 = desired_dir e) \<and>
   (dir e = DIR_NONE \<and> desired_cell_open m e = Some False \<longrightarrow>
      repeat_update spd m dts e = Some e) \<and>
   (maze_wf m \<longrightarrow> repeat_update spd m dts e \<noteq> None)"
  using entity_update_dir [of spd m dt e e'] repeat_update_desired_blocked [of spd m dts e e2]
    stopped_entity_stays_run [of e m spd dts] repeat_update_wf [of m spd dts e]
  by blast

theorem direction_change_commit_witness:
  "entity_update entity_get_current_speed fallback_maze (1/60) turning_entity
      = Some (turning_entity\<lparr>pos_x := 64, pos_y := 60, dir := DIR_RIGHT\<rparr>) \<and>
   desired_dir turning_entity = DIR_RIGHT \<and>
   desired_cell_open fallback_maze turning_entity = Some True \<and>
   \<bar>pos_y turning_entity - get_cell_center_y (cell_row turning_entity)\<bar> < 4 \<and>
   pos_y (turning_entity\<lparr>pos_x := 64, pos_y := 60, dir := DIR_RIGHT\<rparr>)
      = get_cell_center_y (cell_row turning_entity) \<and>
   entity_update entity_get_current_speed fallback_maze (1/60)
      (turning_entity\<lparr>desired_dir := DIR_DOWN\<rparr>)
      = Some (turning_entity\<lparr>desired_dir := DIR_DOWN, pos_x := 60, pos_y := 60, dir := DIR_DOWN\<rparr>) \<and>
   desired_cell_open fallback_maze (turning_entity\<lparr>desired_dir := DIR_DOWN\<rparr>) = Some True \<and>
   \<bar>pos_x (turning_entity\<lparr>desired_dir := DIR_DOWN\<rparr>)
      - get_cell_center_x (cell_col (turning_entity\<lparr>desired_dir := DIR_DOWN\<rparr>))\<bar> < 4 \<and>
   pos_x (turning_entity\<lparr>desired_dir := DIR_DOWN, pos_x := 60, pos_y := 60, dir := DIR_DOWN\<rparr>)
      = get_cell_center_x (cell_col (turning_entity\<lparr>desired_dir := DIR_DOWN\<rparr>)) \<and>
   repeat_update entity_get_current_speed fallback_maze [1/60, 1/60] corner_entity
      = Some (corner_entity\<lparr>dir := DIR_NONE\<rparr>) \<and>
   desired_blocked_run entity_get_current_speed fallback_maze [1/60, 1/60] corner_entity \<and>
   dir (corner_entity\<lparr>dir := DIR_NONE\<rparr>) = DIR_NONE \<and>
   desired_cell_open fallback_maze (corner_entity\<lparr>dir := DIR_NONE\<rparr>) = Some False \<and>
   repeat_update entity_get_current_speed fallback_maze [1/60, 1/60]
      (corner_entity\<lparr>dir := DIR_NONE\<rparr>) = Some (corner_entity\<lparr>dir := DIR_NONE\<rparr>) \<and>
   maze_wf fallback_maze"
  using direction_change_commit
      [of entity_get_current_speed fallback_maze "1/60" turning_entity
          "turning_entity\<lparr>pos_x := 64, pos_y := 60, dir := DIR_RIGHT\<rparr>" "[1/60, 1/60]"
          "turning_entity\<lparr>pos_x := 64, pos_y := 60, dir := DIR_RIGHT\<rparr>"]
    direction_change_commit
      [of entity_get_current_speed fallback_maze "1/60"
          "turning_entity\<lparr>desired_dir := DIR_DOWN\<rparr>"
          "turning_entity\<lparr>desired_dir := DIR_DOWN, pos_x := 60, pos_y := 60, dir := DIR_DOWN\<rparr>"
          "[1/60, 1/60]"
          "turning_entity\<lparr>desired_dir := DIR_DOWN, pos_x := 60, pos_y := 60, dir := DIR_DOWN\<rparr>"]
    direction_change_commit
      [of entity_get_current_speed fallback_maze "1/60" corner_entity
          "corner_entity\<lparr>dir := DIR_NONE\<rparr>" "[1/60, 1/60]" "corner_entity\<lparr>dir := DIR_NONE\<rparr>"]
    direction_change_commit
      [of entity_get_current_speed fallback_maze "1/60" "corner_entity\<lparr>dir := DIR_NONE\<rparr>"
          "corner_entity\<lparr>dir := DIR_NONE\<rparr>" "[1/60, 1/60]" "corner_entity\<lparr>dir := DIR_NONE\<rparr>"]
    maze_wf_fallback
  by (simp add: corner_entity_def turning_entity_def entity_eval maze_eval)

text \<open>
  The claim C3 as stated fails: the entity \<open>corner_entity\<close> heads left while its desired
  direction UP points into the wall cell (0, 1); one update of 1/60 s finds the way left
  blocked and changes the current direction from \<open>DIR_LEFT\<close> to \<open>DIR_NONE\<close>.
\<close>

theorem direction_change_counterexample:
  "desired_dir corner_entity = DIR_UP \<and>
   get_next_cell DIR_UP (cell_row corner_entity) (cell_col corner_entity) = (0, 1) \<and>
   is_empty fallback_maze 0 1 = Some False \<and>
   dir corner_entity = DIR_LEFT \<and>
   entity_update entity_get_current_speed fallback_maze (1/60) corner_entity
      = Some (corner_entity\<lparr>dir := DIR_NONE\<rparr>) \<and>
   dir (corner_entity\<lparr>dir := DIR_NONE\<rparr>) \<noteq> dir corner_entity"
  by (simp add: corner_entity_def entity_eval maze_eval)

subsection \<open>Ghost speed and timers\<close>

lemma sqrt_less_numeral: "0 \<le> c \<Longrightarrow> sqrt x < c \<longleftrightarrow> x < c * c"
  by (metis abs_of_nonneg real_sqrt_abs2 real_sqrt_less_iff)

lemma sqrt_le_numeral: "0 \<le> c \<Longrightarrow> sqrt x \<le> c \<longleftrightarrow> x \<le> c * c"
  by (metis abs_of_nonneg real_sqrt_abs2 real_sqrt_le_iff)


lemmas ghost_eval =
  crazy_ghost_def crazy_ghost_in_corner_def new_ghost_def set_scared_mode_def
  SCARED_DURATION_def WARNING_TIME_def draw_palette_to_use_def fmod_def
  ghost_get_current_speed_def

text \<open>
  C5. For a speed multiplier above zero \<open>set_scared_mode\<close> enters the state \<open>SCARED\<close>
  with the actual scared duration 15 / multiplier (15 s being \<open>SCARED_DURATION\<close>), so of
  two ghosts the one with the larger multiplier gets the strictly shorter duration.
\<close>

theorem scared_duration_inverse:
  "SCARED_DURATION = 15 \<and>
   (0 < speed_multiplier g \<longrightarrow>
      current_state (set_scared_mode g) = SCARED \<and>
      scared_duration_actual (set_scared_mode g) = 15 / speed_multiplier g) \<and>
   (0 < speed_multiplier g1 \<and> speed_multiplier g1 < speed_multiplier g2 \<longrightarrow>
      scared_duration_actual (set_scared_mode g2) < scared_duration_actual (set_scared_mode g1))"
  by (simp add: set_scared_mode_def SCARED_DURATION_def frac_less2)

theorem scared_duration_inverse_witness:
  "(0::real) < speed_multiplier crazy_ghost \<and>
   current_state (set_scared_mode crazy_ghost) = SCARED \<and>
   scared_duration_actual (set_scared_mode crazy_ghost) = 15 / 2 \<and>
   (0::real) < speed_multiplier (crazy_ghost\<lparr>speed_multiplier := 3/4\<rparr>) \<and>
   speed_multiplier (crazy_ghost\<lparr>speed_multiplier := 3/4\<rparr>) < speed_multiplier crazy_ghost \<and>
   scared_duration_actual (set_scared_mode crazy_ghost)
     < scared_duration_actual (set_scared_mode (crazy_ghost\<lparr>speed_multiplier := 3/4\<rparr>))"
  using scared_duration_inverse [of crazy_ghost "crazy_ghost\<lparr>speed_multiplier := 3/4\<rparr>" crazy_ghost]
  by (simp add: crazy_ghost_def new_ghost_def)





lemma scared_timer_run:
  assumes "current_state g = SCARED" "0 \<le> dt"
    "scared_timer g + real n * dt < scared_duration_actual g"
  shows "(update_scared_timer dt ^^ n) g =
         g\<lparr>scared_timer := scared_timer g + real n * dt,
           flash_timer := flash_timer g + real n * dt\<rparr>"
  using assms(3)
proof (induction n)
  case 0
  show ?case by simp
next
  case (Suc n)
  have "scared_timer g + real n * dt \<le> scared_timer g + real (Suc n) * dt"
    using assms(2) by (simp add: distrib_right)
  then have lt: "scared_timer g + real n * dt < scared_duration_actual g"
    using Suc.prems by linarith
  have st: "scared_timer g + real n * dt + dt < scared_duration_actual g"
    using Suc.prems by (simp add: distrib_right add.assoc)
  show ?case
    using Suc.IH [OF lt] st assms(1)
    by (simp add: update_scared_timer_def Let_def distrib_right add.assoc)
qed

lemma late_scared_ghost_eq:
  "late_scared_ghost = (set_scared_mode crazy_ghost)\<lparr>scared_timer := 26/5, flash_timer := 26/5\<rparr>"
  unfolding late_scared_ghost_def
  by (subst scared_timer_run) (simp_all add: ghost_eval)

text \<open>
  C6 fails on the code. At speed multiplier 2.0 the scared duration is 7.5 s. After 5.2 s
  in the state \<open>SCARED\<close> 2.3 s remain and the flash timer is in the second half of its
  0.33 s period, yet \<open>draw\<close> uses the ghost's own palette: it computes the remaining time
  from the constant 15 s (here 9.8 s), not from the actual scared duration.
\<close>

theorem scared_flash_uses_base_duration:
  "speed_multiplier late_scared_ghost = 2 \<and>
   current_state late_scared_ghost = SCARED \<and>
   scared_duration_actual late_scared_ghost = 15 / 2 \<and>
   scared_timer late_scared_ghost = 26 / 5 \<and>
   scared_duration_actual late_scared_ghost - scared_timer late_scared_ghost \<le> 3 \<and>
   fmod (flash_timer late_scared_ghost) 0.33 \<ge> 0.167 \<and>
   SCARED_DURATION - scared_timer late_scared_ghost = 49 / 5 \<and>
   draw_palette_to_use late_scared_ghost = ''RED_BLUE_WHITE'' \<and>
   draw_palette_to_use late_scared_ghost \<noteq> ''RED_WHITE_GREEN''"
  by (simp add: late_scared_ghost_eq ghost_eval to_int_numeral_simps)

subsection \<open>Pellet collection\<close>

lemma check_token_loop_frame:
  assumes "check_token_loop x y ts gs a = (ts', gs', a')"
  shows "total_tokens gs' = total_tokens gs \<and> tokens gs' = tokens gs \<and>
         power_pellets gs' = power_pellets gs \<and> length ts' = length ts \<and>
         tokens_collected gs' - count_collected ts' = tokens_collected gs - count_collected ts \<and>
         score gs' = score gs + TOKEN_POINTS * (tokens_collected gs' - tokens_collected gs) \<and>
         tokens_collected gs \<le> tokens_collected gs'"
  using assms
proof (induction ts arbitrary: gs a ts' gs' a')
  case Nil
  then show ?case by simp
next
  case (Cons t ts)
  show ?case
  proof (cases "\<not> tok_collected t \<and> token_in_reach x y t")
    case True
    obtain ts1 gs1 a1 where r: "check_token_loop x y ts
        ((add_score TOKEN_POINTS gs)\<lparr>tokens_collected := tokens_collected gs + 1,
           token_just_collected := True\<rparr>) True = (ts1, gs1, a1)"
      by (metis prod_cases3)
    with True Cons.prems have e: "ts' = t\<lparr>tok_collected := True\<rparr> # ts1" "gs' = gs1" "a' = a1"
      by (simp_all add: token_in_reach_def Let_def)
    from Cons.IH [OF r] True show ?thesis
      unfolding e by (simp add: add_score_def count_collected_def algebra_simps)
  next
    case False
    obtain ts1 gs1 a1 where r: "check_token_loop x y ts gs a = (ts1, gs1, a1)"
      by (metis prod_cases3)
    with False Cons.prems have e: "ts' = t # ts1" "gs' = gs1" "a' = a1"
      by (auto simp: token_in_reach_def Let_def)
    from Cons.IH [OF r] show ?thesis
      unfolding e by (simp add: count_collected_def)
  qed
qed

lemma check_token_loop_tokens:
  assumes "check_token_loop x y ts gs a = (ts', gs', a')"
  shows "list_all2 (\<lambda>t t'. tok_row t' = tok_row t \<and> tok_col t' = tok_col t \<and>
            (tok_collected t \<longrightarrow> tok_collected t') \<and>
            (tok_collected t' \<or> \<not> token_in_reach x y t')) ts ts'"
  using assms
proof (induction ts arbitrary: gs a ts' gs' a')
  case Nil
  then show ?case by simp
next
  case (Cons t ts)
  show ?case
  proof (cases "\<not> tok_collected t \<and> token_in_reach x y t")
    case True
    obtain ts1 gs1 a1 where r: "check_token_loop x y ts
        ((add_score TOKEN_POINTS gs)\<lparr>tokens_collected := tokens_collected gs + 1,
           token_just_collected := True\<rparr>) True = (ts1, gs1, a1)"
      by (metis prod_cases3)
    with True Cons.prems have e: "ts' = t\<lparr>tok_collected := True\<rparr> # ts1"
      by (simp_all add: token_in_reach_def Let_def)
    from Cons.IH [OF r] show ?thesis unfolding e by simp
  next
    case False
    obtain ts1 gs1 a1 where r: "check_token_loop x y ts gs a = (ts1, gs1, a1)"
      by (metis prod_cases3)
    with False Cons.prems have e: "ts' = t # ts1"
      by (auto simp: token_in_reach_def Let_def)
    from Cons.IH [OF r] False show ?thesis unfolding e by auto
  qed
qed

lemma check_token_loop_nothing:
  assumes "\<forall>t \<in> set ts. tok_collected t \<or> \<not> token_in_reach x y t"
  shows "check_token_loop x y ts gs a = (ts, gs, a)"
  using assms by (induction ts arbitrary: gs a) (auto simp: token_in_reach_def Let_def)

lemma check_power_pellet_loop_frame:
  assumes "check_power_pellet_loop x y ps gs a = (ps', gs', a')"
  shows "total_tokens gs' = total_tokens gs \<and> tokens gs' = tokens gs \<and>
         tokens_collected gs' = tokens_collected gs"
  using assms
proof (induction ps arbitrary: gs a ps' gs' a')
  case Nil
  then show ?case by simp
next
  case (Cons p ps)
  obtain ps1 gs1 a1 where r1: "check_power_pellet_loop x y ps
        (add_score POWER_PELLET_POINTS gs) True = (ps1, gs1, a1)"
    by (metis prod_cases3)
  obtain ps2 gs2 a2 where r2: "check_power_pellet_loop x y ps gs a = (ps2, gs2, a2)"
    by (metis prod_cases3)
  from Cons.prems r1 r2 have "gs' = gs1 \<or> gs' = gs2"
    by (auto simp: Let_def split: if_splits)
  then show ?case
    using Cons.IH [OF r1] Cons.IH [OF r2] by (auto simp: add_score_def)
qed

lemma check_token_collection_props:
  fixes gs :: GameState and x y :: real
  defines "gs2 \<equiv> snd (check_token_collection x y gs)"
  shows "total_tokens gs2 = total_tokens gs"
    and "length (tokens gs2) = length (tokens gs)"
    and "list_all2 (\<lambda>t t'. tok_row t' = tok_row t \<and> tok_col t' = tok_col t \<and>
            (tok_collected t \<longrightarrow> tok_collected t') \<and>
            (tok_collected t' \<or> \<not> token_in_reach x y t')) (tokens gs) (tokens gs2)"
    and "tokens_collected gs2 - count_collected (tokens gs2)
           = tokens_collected gs - count_collected (tokens gs)"
    and "score gs2 = score gs + TOKEN_POINTS * (tokens_collected gs2 - tokens_collected gs)"
    and "tokens_collected gs \<le> tokens_collected gs2"
proof -
  obtain ts' gs' a' where r: "check_token_loop x y (tokens gs) gs False = (ts', gs', a')"
    by (metis prod_cases3)
  then have g2: "gs2 = gs'\<lparr>tokens := ts'\<rparr>"
    by (simp add: gs2_def check_token_collection_def)
  note f = check_token_loop_frame [OF r] and t = check_token_loop_tokens [OF r]
  show "total_tokens gs2 = total_tokens gs" using f by (simp add: g2)
  show "length (tokens gs2) = length (tokens gs)" using f by (simp add: g2)
  show "list_all2 (\<lambda>t t'. tok_row t' = tok_row t \<and> tok_col t' = tok_col t \<and>
            (tok_collected t \<longrightarrow> tok_collected t') \<and>
            (tok_collected t' \<or> \<not> token_in_reach x y t')) (tokens gs) (tokens gs2)"
    using t by (simp add: g2)
  show "tokens_collected gs2 - count_collected (tokens gs2)
           = tokens_collected gs - count_collected (tokens gs)"
    using f by (simp add: g2)
  show "score gs2 = score gs + TOKEN_POINTS * (tokens_collected gs2 - tokens_collected gs)"
    using f by (simp add: g2)
  show "tokens_collected gs \<le> tokens_collected gs2" using f by (simp add: g2)
qed

lemma check_token_collection_again:
  "check_token_collection x y (snd (check_token_collection x y gs))
     = (False, snd (check_token_collection x y gs))"
proof -
  define gs2 where "gs2 = snd (check_token_collection x y gs)"
  have "list_all2 (\<lambda>t t'. tok_row t' = tok_row t \<and> tok_col t' = tok_col t \<and>
            (tok_collected t \<longrightarrow> tok_collected t') \<and>
            (tok_collected t' \<or> \<not> token_in_reach x y t')) (tokens gs) (tokens gs2)"
    unfolding gs2_def by (rule check_token_collection_props)
  then have "\<forall>t \<in> set (tokens gs2). tok_collected t \<or> \<not> token_in_reach x y t"
    by (auto simp: list_all2_conv_all_nth in_set_conv_nth)
  then have "check_token_loop x y (tokens gs2) gs2 False = (tokens gs2, gs2, False)"
    by (rule check_token_loop_nothing)
  then show ?thesis
    unfolding gs2_def [symmetric] by (simp add: check_token_collection_def)
qed

lemma check_power_pellet_collection_frame:
  fixes gs :: GameState and x y :: real
  defines "gs2 \<equiv> snd (check_power_pellet_collection x y gs)"
  shows "total_tokens gs2 = total_tokens gs \<and> tokens gs2 = tokens gs \<and>
         tokens_collected gs2 = tokens_collected gs"
proof -
  obtain ps' gs' a' where
    r: "check_power_pellet_loop x y (power_pellets gs) gs False = (ps', gs', a')"
    by (metis prod_cases3)
  then have g2: "gs2 = gs'\<lparr>power_pellets := ps'\<rparr>"
    by (simp add: gs2_def check_power_pellet_collection_def)
  show ?thesis using check_power_pellet_loop_frame [OF r] by (simp add: g2)
qed

lemma do_call_inv:
  assumes "game_state_inv gs"
  shows "game_state_inv (do_call c gs)"
proof (cases c)
  case (CheckTokenCollection x y)
  then show ?thesis
    using assms check_token_collection_props(1,2,4) [of x y gs]
    by (simp add: game_state_inv_def)
next
  case (CheckPowerPelletCollection x y)
  then show ?thesis
    using assms check_power_pellet_collection_frame [of x y gs]
    by (simp add: game_state_inv_def)
qed (use assms in \<open>auto simp: game_state_inv_def add_token_def add_power_pellet_def add_score_def
      reset_token_collection_flag_def count_collected_def new_token_def\<close>)

lemma do_calls_inv:
  assumes "game_state_inv gs"
  shows "game_state_inv (do_calls cs gs)"
  using assms by (induction cs arbitrary: gs) (simp_all add: do_call_inv)

lemma game_state_inv_new: "game_state_inv new_game_state"
  by (simp add: game_state_inv_def new_game_state_def count_collected_def)

lemma game_state_inv_le: "game_state_inv gs \<Longrightarrow> tokens_collected gs \<le> total_tokens gs"
  by (simp add: game_state_inv_def count_collected_def)

lemma do_call_total:
  assumes "is_play_call c"
  shows "total_tokens (do_call c gs) = total_tokens gs"
  using assms check_token_collection_props(1) [of _ _ gs]
    check_power_pellet_collection_frame [of _ _ gs]
  by (cases c) (auto simp: add_score_def reset_token_collection_flag_def)

lemma do_calls_total:
  assumes "list_all is_play_call cs"
  shows "total_tokens (do_calls cs gs) = total_tokens gs"
  using assms by (induction cs arbitrary: gs) (simp_all add: do_call_total)

lemma do_call_collected_mono:
  assumes "i < length (tokens gs)" "tok_collected (tokens gs ! i)"
  shows "i < length (tokens (do_call c gs)) \<and> tok_collected (tokens (do_call c gs) ! i)"
proof (cases c)
  case (CheckTokenCollection x y)
  then show ?thesis
    using assms check_token_collection_props(2,3) [of x y gs]
    by (auto simp: list_all2_conv_all_nth)
next
  case (CheckPowerPelletCollection x y)
  then show ?thesis
    using assms check_power_pellet_collection_frame [of x y gs] by simp
qed (use assms in \<open>auto simp: add_token_def add_power_pellet_def add_score_def
      reset_token_collection_flag_def nth_append\<close>)

lemma do_calls_collected_mono:
  assumes "i < length (tokens gs)" "tok_collected (tokens gs ! i)"
  shows "i < length (tokens (do_calls cs gs)) \<and> tok_collected (tokens (do_calls cs gs) ! i)"
  using assms
proof (induction cs arbitrary: gs)
  case Nil
  then show ?case by simp
next
  case (Cons c cs)
  from do_call_collected_mono [OF Cons.prems, of c] Cons.IH [of "do_call c gs"]
  show ?case by simp
qed

lemmas game_state_eval =
  two_token_state_def new_game_state_def add_token_def add_power_pellet_def add_score_def
  new_token_def new_power_pellet_def check_token_collection_def check_power_pellet_collection_def
  token_get_x_def token_get_y_def power_pellet_get_x_def power_pellet_get_y_def
  reset_token_collection_flag_def COLLECTION_DISTANCE_def TOKEN_POINTS_def POWER_PELLET_POINTS_def
  get_cell_center_x_def get_cell_center_y_def CELL_SIZE_def sqrt_le_numeral Let_def

text \<open>
  C7. (1) A token that is collected stays collected, at the same place of the token
  list, through any sequence of calls on the game state. (2) A second
  \<open>check_token_collection\<close> at the same position returns false and leaves the state as the
  first one left it, score and counter included; the first one adds \<open>TOKEN_POINTS\<close> to
  the score for each token it counts. (3) \<open>total_tokens\<close> is unchanged by every sequence
  of calls other than \<open>add_token\<close> and \<open>add_power_pellet\<close>. (4) In every state reached from
  a new game state \<open>tokens_collected\<close> is at most \<open>total_tokens\<close>.
\<close>

theorem pellet_collection_monotonic_idempotent:
  "(i < length (tokens gs) \<and> tok_collected (tokens gs ! i) \<longrightarrow>
      i < length (tokens (do_calls cs gs)) \<and> tok_collected (tokens (do_calls cs gs) ! i)) \<and>
   check_token_collection x y (snd (check_token_collection x y gs))
     = (False, snd (check_token_collection x y gs)) \<and>
   score (snd (check_token_collection x y gs))
     = score gs + TOKEN_POINTS *
         (tokens_collected (snd (check_token_collection x y gs)) - tokens_collected gs) \<and>
   (list_all is_play_call cs \<longrightarrow> total_tokens (do_calls cs gs) = total_tokens gs) \<and>
   tokens_collected (do_calls cs new_game_state) \<le> total_tokens (do_calls cs new_game_state)"
  using do_calls_collected_mono [of i gs cs] check_token_collection_again [of x y gs]
    check_token_collection_props(5) [of x y gs] do_calls_total [of cs gs]
    game_state_inv_le [OF do_calls_inv [OF game_state_inv_new, of cs]]
  by blast

theorem pellet_collection_monotonic_idempotent_witness:
  "(0::nat) < length (tokens (snd (check_token_collection 60 60 two_token_state))) \<and>
   tok_collected (tokens (snd (check_token_collection 60 60 two_token_state)) ! 0) \<and>
   tok_collected (tokens (do_calls [CheckTokenCollection 300 300, AddScore 7]
      (snd (check_token_collection 60 60 two_token_state))) ! 0) \<and>
   check_token_collection 60 60 (snd (check_token_collection 60 60 two_token_state))
     = (False, snd (check_token_collection 60 60 two_token_state)) \<and>
   score (snd (check_token_collection 60 60 two_token_state)) = 10 \<and>
   tokens_collected (snd (check_token_collection 60 60 two_token_state)) = 1 \<and>
   list_all is_play_call [CheckTokenCollection 300 300, AddScore 7] \<and>
   total_tokens (do_calls [CheckTokenCollection 300 300, AddScore 7]
      (snd (check_token_collection 60 60 two_token_state))) = 2 \<and>
   tokens_collected (do_calls [CheckTokenCollection 300 300, AddScore 7] new_game_state)
     \<le> total_tokens (do_calls [CheckTokenCollection 300 300, AddScore 7] new_game_state)"
  using pellet_collection_monotonic_idempotent
      [of 0 "snd (check_token_collection 60 60 two_token_state)"
          "[CheckTokenCollection 300 300, AddScore 7]" 60 60]
    pellet_collection_monotonic_idempotent
      [of 0 two_token_state "[CheckTokenCollection 300 300, AddScore 7]" 60 60]
  by (simp add: game_state_eval)

subsection \<open>Collisions and game mode\<close>

lemmas collision_defs =
  handle_ghost_collisions_def fatal_collision_def ghost_in_reach_def catches_def fatal_for_def
  can_interact_def is_scared_def is_caught_def set_caught_mode_def trigger_score_popup_def
  add_score_def start_name_entry_def set_state_def reset_game_start_flag_def Let_def

lemmas sample_defs =
  sample_game_def sample_pacman_def sample_menu_def new_ghost_def new_game_state_def
  COLLISION_DISTANCE_def sqrt_le_numeral


lemma collisions_ghost1:
  assumes "catches (pacman g) (ghost1 g)"
  shows "ghost1 (handle_ghost_collisions g) =
           (ghost1 g)\<lparr>current_state := CAUGHT, show_score_popup := True, popup_timer := 0,
              popup_x := pos_x (ghost1 g), popup_y := pos_y (ghost1 g)\<rparr>"
  using assms by (simp add: collision_defs)

lemma collisions_ghost2:
  assumes "\<not> fatal_for (pacman g) (ghost1 g)" "catches (pacman g) (ghost2 g)"
  shows "ghost2 (handle_ghost_collisions g) =
           (ghost2 g)\<lparr>current_state := CAUGHT, show_score_popup := True, popup_timer := 0,
              popup_x := pos_x (ghost2 g), popup_y := pos_y (ghost2 g)\<rparr>"
  using assms by (auto simp: collision_defs)

lemma collisions_score:
  "score (game_state (handle_ghost_collisions g)) =
     score (game_state g)
       + (if catches (pacman g) (ghost1 g) then 400 else 0)
       + (if \<not> fatal_for (pacman g) (ghost1 g) \<and> catches (pacman g) (ghost2 g)
          then 400 else 0)"
  by (auto simp: collision_defs)


text \<open>
  C1 (as amended). When the first ghost is within 20 pixels of Pac-Man, can interact and
  is \<open>SCARED\<close>, collision resolution sets its state to \<open>CAUGHT\<close> and shows its score popup,
  with the timer at zero, at the position the ghost has before and after the call. The same
  holds for the second ghost unless the first ghost's collision is fatal, which ends the
  call before the second ghost is looked at. The score grows by 400 for each ghost
  caught by the call.
\<close>

theorem scared_ghost_caught:
  "(catches (pacman g) (ghost1 g) \<longrightarrow>
      ghost1 (handle_ghost_collisions g) =
        (ghost1 g)\<lparr>current_state := CAUGHT, show_score_popup := True, popup_timer := 0,
           popup_x := pos_x (ghost1 g), popup_y := pos_y (ghost1 g)\<rparr>) \<and>
   (\<not> fatal_for (pacman g) (ghost1 g) \<and> catches (pacman g) (ghost2 g) \<longrightarrow>
      ghost2 (handle_ghost_collisions g) =
        (ghost2 g)\<lparr>current_state := CAUGHT, show_score_popup := True, popup_timer := 0,
           popup_x := pos_x (ghost2 g), popup_y := pos_y (ghost2 g)\<rparr>) \<and>
   score (game_state (handle_ghost_collisions g)) =
     score (game_state g)
       + (if catches (pacman g) (ghost1 g) then 400 else 0)
       + (if \<not> fatal_for (pacman g) (ghost1 g) \<and> catches (pacman g) (ghost2 g)
          then 400 else 0)"
  using collisions_ghost1 [of g] collisions_ghost2 [of g] collisions_score [of g]
  by blast

theorem scared_ghost_caught_witness:
  "catches (pacman (sample_game SCARED CAUGHT)) (ghost1 (sample_game SCARED CAUGHT)) \<and>
   current_state (ghost1 (handle_ghost_collisions (sample_game SCARED CAUGHT))) = CAUGHT \<and>
   show_score_popup (ghost1 (handle_ghost_collisions (sample_game SCARED CAUGHT))) \<and>
   popup_x (ghost1 (handle_ghost_collisions (sample_game SCARED CAUGHT))) = 70 \<and>
   popup_y (ghost1 (handle_ghost_collisions (sample_game SCARED CAUGHT))) = 60 \<and>
   score (game_state (handle_ghost_collisions (sample_game SCARED CAUGHT)))
     = score (game_state (sample_game SCARED CAUGHT)) + 400 \<and>
   \<not> fatal_for (pacman (sample_game CAUGHT SCARED)) (ghost1 (sample_game CAUGHT SCARED)) \<and>
   catches (pacman (sample_game CAUGHT SCARED)) (ghost2 (sample_game CAUGHT SCARED)) \<and>
   current_state (ghost2 (handle_ghost_collisions (sample_game CAUGHT SCARED))) = CAUGHT \<and>
   show_score_popup (ghost2 (handle_ghost_collisions (sample_game CAUGHT SCARED))) \<and>
   popup_x (ghost2 (handle_ghost_collisions (sample_game CAUGHT SCARED))) = 60 \<and>
   popup_y (ghost2 (handle_ghost_collisions (sample_game CAUGHT SCARED))) = 50 \<and>
   score (game_state (handle_ghost_collisions (sample_game CAUGHT SCARED)))
     = score (game_state (sample_game CAUGHT SCARED)) + 400"
proof -
  have a: "catches (pacman (sample_game SCARED CAUGHT)) (ghost1 (sample_game SCARED CAUGHT))"
    and b: "\<not> catches (pacman (sample_game SCARED CAUGHT)) (ghost2 (sample_game SCARED CAUGHT))"
    and c: "\<not> fatal_for (pacman (sample_game CAUGHT SCARED)) (ghost1 (sample_game CAUGHT SCARED))"
    and d: "catches (pacman (sample_game CAUGHT SCARED)) (ghost2 (sample_game CAUGHT SCARED))"
    and e: "\<not> catches (pacman (sample_game CAUGHT SCARED)) (ghost1 (sample_game CAUGHT SCARED))"
    by (simp_all add: catches_def fatal_for_def ghost_in_reach_def can_interact_def
        is_scared_def is_caught_def sample_defs)
  show ?thesis
    using scared_ghost_caught [of "sample_game SCARED CAUGHT"]
      scared_ghost_caught [of "sample_game CAUGHT SCARED"] a b c d e
    by (simp add: sample_defs)
qed

text \<open>
  The claim C1 as stated fails for the second ghost: with the first ghost \<open>CHASING\<close> and
  the second \<open>SCARED\<close>, both within 20 pixels, the call ends in the fatal branch of the
  first ghost; the second ghost stays \<open>SCARED\<close>, no popup is shown and the score is
  unchanged.
\<close>

theorem scared_ghost_caught_counterexample:
  "ghost_in_reach (pacman (sample_game CHASING SCARED)) (ghost2 (sample_game CHASING SCARED)) \<and>
   can_interact (ghost2 (sample_game CHASING SCARED)) \<and>
   current_state (ghost2 (sample_game CHASING SCARED)) = SCARED \<and>
   current_state (ghost2 (handle_ghost_collisions (sample_game CHASING SCARED))) = SCARED \<and>
   \<not> show_score_popup (ghost2 (handle_ghost_collisions (sample_game CHASING SCARED))) \<and>
   score (game_state (handle_ghost_collisions (sample_game CHASING SCARED)))
     = score (game_state (sample_game CHASING SCARED))"
  by (simp add: collision_defs sample_defs)







end
